theory Spec2Isabelle
  imports Main "HOL-Library.Sublist"
begin

section \<open>The check-container command of openshift-preflight\<close>

text \<open>
  A shallow embedding of \<^verbatim>\<open>cmd/preflight/cmd/check_container.go\<close>: the
  positional-argument validator \<^verbatim>\<open>checkContainerPositionalArgs\<close>, the pre-run hook
  \<^verbatim>\<open>validateCertificationProjectID\<close> and the option assembler
  \<^verbatim>\<open>generateContainerCheckOptions\<close>.

  Go strings are byte sequences, so they are HOL strings. A Go function that returns
  \<^verbatim>\<open>error\<close> returns an \<open>outcome\<close>; a run-time panic (index out of range, nil
  dereference) is a value of that type too. The package-level variable
  \<^verbatim>\<open>submit\<close> and the process-wide configuration store are threaded through as an
  explicit state.
\<close>

subsection \<open>The string functions of package \<^verbatim>\<open>strings\<close> that the file calls\<close>

text \<open>
  \<^verbatim>\<open>strings.HasPrefix(s, prefix)\<close> is
  \<^verbatim>\<open>len(s) >= len(prefix) && s[:len(prefix)] == prefix\<close>.
\<close>

definition HasPrefix :: "string \<Rightarrow> string \<Rightarrow> bool" where
  "HasPrefix s pre = (length pre \<le> length s \<and> take (length pre) s = pre)"

text \<open>
  \<^verbatim>\<open>strings.Contains(s, substr)\<close> is \<^verbatim>\<open>Index(s, substr) >= 0\<close>: some position of
  \<open>s\<close> (the end included, for the empty substring) starts an occurrence.
\<close>

fun Contains :: "string \<Rightarrow> string \<Rightarrow> bool" where
  "Contains [] substr = (substr = [])"
| "Contains (c # s) substr = (HasPrefix (c # s) substr \<or> Contains s substr)"

text \<open>
  \<^verbatim>\<open>strings.IndexByte\<close>: the position of the first occurrence of a byte, \<open>None\<close>
  for Go's \<open>-1\<close>.
\<close>

fun IndexByte :: "string \<Rightarrow> char \<Rightarrow> nat option" where
  "IndexByte [] c = None"
| "IndexByte (x # s) c = (if x = c then Some 0 else map_option Suc (IndexByte s c))"

text \<open>
  \<^verbatim>\<open>strings.Split(s, sep)\<close> for a one-byte separator, as the loop of
  \<^verbatim>\<open>genSplit\<close> runs: cut at the first separator, continue behind it, and end
  with the rest. The empty string gives one empty part.
\<close>

function Split :: "string \<Rightarrow> char \<Rightarrow> string list" where
  "Split s sep =
     (case IndexByte s sep of
        None \<Rightarrow> [s]
      | Some m \<Rightarrow> take m s # Split (drop (m + 1) s) sep)"
  by pat_completeness auto
termination
proof (relation "measure (\<lambda>(s, sep). length s)")
  show "wf (measure (\<lambda>(s, sep :: char). length (s :: string)))"
    by simp
next
  fix s :: string and sep :: char and m :: nat
  assume "IndexByte s sep = Some m"
  then have "m < length s"
    by (induction s arbitrary: m) (auto split: if_splits)
  then show "((drop (m + 1) s, sep), (s, sep)) \<in> measure (\<lambda>(s, sep). length s)"
    by simp
qed

declare Split.simps [simp del]

subsection \<open>Errors and outcomes\<close>

text \<open>
  The file builds its errors with \<^verbatim>\<open>fmt.Errorf\<close>; the constructors name them as
  the specification's taxonomy does, and \<open>message\<close> gives the text of each.
\<close>

datatype error =
    ArgumentError
  | MissingCredentialError string
  | EmptyCredentialError string
  | MalformedCredentialError
  | MalformedIdentifierError string

fun message :: "error \<Rightarrow> string" where
  "message ArgumentError = ''a container image positional argument is required''"
| "message (MissingCredentialError what) =
     (if what = ''certification project id''
      then ''certification Project ID must be specified when --submit is present''
      else ''pyxis API Token must be specified when --submit is present'')"
| "message (EmptyCredentialError what) =
     (if what = ''certification project id''
      then ''certification Project ID cannot be empty when --submit is present''
      else ''pyxis API Token cannot be empty when --submit is present'')"
| "message MalformedCredentialError =
     ''pyxis API token and certification ID are required when --submit is present''"
| "message (MalformedIdentifierError pid) =
     ''certification project id: '' @ pid @
     '' is improperly formatted see help command for instructions on obtaining proper value''"

datatype outcome = Ok | Failed error | Panicked

subsection \<open>Flags, the command and the configuration store\<close>

text \<open>
  A \<^verbatim>\<open>pflag.Flag\<close>: its name, whether the command line set it, and the text of
  its value (\<^verbatim>\<open>f.Value.String()\<close>).
\<close>

record pflag =
  Name :: string
  Changed :: bool
  Value :: string

record command =
  Flags :: "pflag list"

text \<open>\<^verbatim>\<open>cmd.Flag(name)\<close> is nil when the command has no such flag.\<close>

definition Flag :: "command \<Rightarrow> string \<Rightarrow> pflag option" where
  "Flag cmd n = find (\<lambda>f. Name f = n) (Flags cmd)"

text \<open>
  \<^verbatim>\<open>FlagSet.VisitAll\<close> calls the visitor on every flag, set or not, one after
  the other (pflag goes by name; the list is taken to be in that order).
\<close>

definition VisitAll :: "pflag list \<Rightarrow> (pflag \<Rightarrow> 's \<Rightarrow> 's) \<Rightarrow> 's \<Rightarrow> 's" where
  "VisitAll fs fn s = fold fn fs s"

text \<open>
  The configuration store (\<^verbatim>\<open>viper.Instance()\<close>) as the merged view of its
  sources: the keys that are set, with their values, the entry in front taking
  precedence. \<^verbatim>\<open>GetString\<close> of a key that is not set is the empty string, and
  \<^verbatim>\<open>Set\<close> writes the override layer, which precedes every other source.
\<close>

type_synonym viper = "(string \<times> string) list"

definition IsSet :: "viper \<Rightarrow> string \<Rightarrow> bool" where
  "IsSet v k = (map_of v k \<noteq> None)"

definition GetString :: "viper \<Rightarrow> string \<Rightarrow> string" where
  "GetString v k = (case map_of v k of None \<Rightarrow> [] | Some x \<Rightarrow> x)"

definition Set :: "viper \<Rightarrow> string \<Rightarrow> string \<Rightarrow> viper" where
  "Set v k x = (k, x) # v"

text \<open>The process-wide state: \<^verbatim>\<open>var submit bool\<close> and the store.\<close>

record globals =
  submit :: bool
  viper :: viper

subsection \<open>\<^verbatim>\<open>checkContainerPositionalArgs\<close>\<close>

text \<open>The visitor passed to \<^verbatim>\<open>VisitAll\<close>.\<close>

definition scanFlag :: "pflag \<Rightarrow> globals \<Rightarrow> globals" where
  "scanFlag f g =
     (if Changed f \<and> Contains (Value f) ''--submit'' then g\<lparr>submit := True\<rparr> else g)"

definition checkContainerPositionalArgs ::
  "command \<Rightarrow> string list \<Rightarrow> globals \<Rightarrow> outcome \<times> globals" where
  "checkContainerPositionalArgs cmd args g0 =
     (if length args \<noteq> 1 then (Failed ArgumentError, g0)
      else
        let g = VisitAll (Flags cmd) scanFlag g0 in
        if submit g then
          (case Flag cmd ''certification-project-id'' of
             None \<Rightarrow> (Panicked, g)
           | Some pid \<Rightarrow>
               if \<not> Changed pid \<and> \<not> IsSet (viper g) ''certification_project_id''
               then (Failed (MissingCredentialError ''certification project id''), g)
               else
                 (case Flag cmd ''pyxis-api-token'' of
                    None \<Rightarrow> (Panicked, g)
                  | Some tok \<Rightarrow>
                      if \<not> Changed tok \<and> \<not> IsSet (viper g) ''pyxis_api_token''
                      then (Failed (MissingCredentialError ''pyxis api token''), g)
                      else if Changed pid \<and> GetString (viper g) ''certification_project_id'' = ''''
                      then (Failed (EmptyCredentialError ''certification project id''), g)
                      else if Changed tok \<and> GetString (viper g) ''pyxis_api_token'' = ''''
                      then (Failed (EmptyCredentialError ''pyxis api token''), g)
                      else if HasPrefix (GetString (viper g) ''pyxis_api_token'') ''--''
                            \<or> HasPrefix (GetString (viper g) ''certification_project_id'') ''--''
                      then (Failed MalformedCredentialError, g)
                      else (Ok, g)))
        else (Ok, g))"

subsection \<open>\<^verbatim>\<open>validateCertificationProjectID\<close>\<close>

text \<open>A slice read \<^verbatim>\<open>parts[i]\<close>: out of range, Go panics.\<close>

definition index :: "'a list \<Rightarrow> nat \<Rightarrow> 'a option" where
  "index xs i = (if i < length xs then Some (xs ! i) else None)"

text \<open>
  The hook ignores its two parameters (the command and the arguments) and works on
  the store alone.
\<close>

definition validateCertificationProjectID :: "globals \<Rightarrow> outcome \<times> globals" where
  "validateCertificationProjectID g =
     (let certificationProjectID = GetString (viper g) ''certification_project_id'';
          parts = Split certificationProjectID CHR ''-''
      in
        if length parts > 2
        then (Failed (MalformedIdentifierError certificationProjectID), g)
        else
          (case index parts 0 of
             None \<Rightarrow> (Panicked, g)
           | Some p0 \<Rightarrow>
               if p0 = ''ospid'' then
                 (case index parts 1 of
                    None \<Rightarrow> (Panicked, g)
                  | Some p1 \<Rightarrow>
                      (Ok, g\<lparr>viper := Set (viper g) ''certification_project_id'' p1\<rparr>))
               else (Ok, g)))"

subsection \<open>\<^verbatim>\<open>generateContainerCheckOptions\<close>\<close>

text \<open>
  The fields of \<^verbatim>\<open>runtime.Config\<close> that the file reads or writes; the
  record's extension stands for the others.
\<close>

record Config =
  Artifacts :: string
  LogFile :: string
  WriteJUnit :: bool
  CertificationProjectID :: string
  PyxisAPIToken :: string
  PyxisHost :: string
  DockerConfig :: string
  Platform :: string
  Submit :: bool
  Insecure :: bool

text \<open>A \<^verbatim>\<open>container.Option\<close> is named by the constructor call that made it.\<close>

datatype container_Option =
    WithCertificationProject string string
  | WithDockerConfigJSONFromFile string
  | WithPyxisHost string
  | WithPlatform string
  | WithInsecureConnection

text \<open>
  The function takes a pointer and writes \<^verbatim>\<open>cfg.Submit\<close>: the model returns the
  options together with the configuration as the caller sees it afterwards.
\<close>

definition generateContainerCheckOptions ::
  "'a Config_scheme \<Rightarrow> container_Option list \<times> 'a Config_scheme" where
  "generateContainerCheckOptions cfg =
     (let o0 = [WithCertificationProject (CertificationProjectID cfg) (PyxisAPIToken cfg),
                WithDockerConfigJSONFromFile (DockerConfig cfg),
                WithPyxisHost (PyxisHost cfg),
                WithPlatform (Platform cfg)];
          o1 = (if PyxisAPIToken cfg \<noteq> '''' \<and> CertificationProjectID cfg \<noteq> ''''
                then o0 @ [WithCertificationProject (CertificationProjectID cfg) (PyxisAPIToken cfg)]
                else o0)
      in
        if Insecure cfg
        then (o1 @ [WithInsecureConnection], cfg\<lparr>Submit := False\<rparr>)
        else (o1, cfg))"

text \<open>The options that pair the certification project with the token.\<close>

fun isCertificationProject :: "container_Option \<Rightarrow> bool" where
  "isCertificationProject (WithCertificationProject pid tok) = True"
| "isCertificationProject opt = False"

subsection \<open>The specification's reading of the submission prerequisites\<close>

text \<open>
  Submission is requested when the \<^verbatim>\<open>submit\<close> variable is true, or when a flag
  that the command line set carries \<^verbatim>\<open>--submit\<close> inside its value.
\<close>

definition submission_requested :: "command \<Rightarrow> globals \<Rightarrow> bool" where
  "submission_requested cmd g =
     (submit g \<or> list_ex (\<lambda>f. Changed f \<and> Contains (Value f) ''--submit'') (Flags cmd))"

text \<open>
  The five prerequisite checks in the order the specification numbers them, each as
  the condition under which it fails and the error it then gives; \<open>first_failure\<close>
  reports the first check of a list that fails.
\<close>

definition prerequisite_checks :: "pflag \<Rightarrow> pflag \<Rightarrow> viper \<Rightarrow> (bool \<times> error) list" where
  "prerequisite_checks pid tok v =
     [(\<not> Changed pid \<and> \<not> IsSet v ''certification_project_id'',
         MissingCredentialError ''certification project id''),
      (\<not> Changed tok \<and> \<not> IsSet v ''pyxis_api_token'',
         MissingCredentialError ''pyxis api token''),
      (Changed pid \<and> GetString v ''certification_project_id'' = '''',
         EmptyCredentialError ''certification project id''),
      (Changed tok \<and> GetString v ''pyxis_api_token'' = '''',
         EmptyCredentialError ''pyxis api token''),
      (HasPrefix (GetString v ''pyxis_api_token'') ''--''
         \<or> HasPrefix (GetString v ''certification_project_id'') ''--'',
         MalformedCredentialError)]"

fun first_failure :: "(bool \<times> error) list \<Rightarrow> outcome" where
  "first_failure [] = Ok"
| "first_failure ((fails, e) # cs) = (if fails then Failed e else first_failure cs)"

subsection \<open>The flags of the command\<close>

text \<open>
  \<^verbatim>\<open>checkContainerCmd\<close> registers seven flags, each with its default value and
  not yet changed (listed by name). The defaults of \<^verbatim>\<open>pyxis-env\<close> and
  \<^verbatim>\<open>platform\<close> are the constants \<^verbatim>\<open>check.DefaultPyxisEnv\<close> and
  \<^verbatim>\<open>runtime.GOARCH\<close> of other packages, taken as parameters.
\<close>

definition checkContainerCmd :: "string \<Rightarrow> string \<Rightarrow> command" where
  "checkContainerCmd defaultPyxisEnv goarch =
     \<lparr>Flags = [\<lparr>Name = ''certification-project-id'', Changed = False, Value = ''''\<rparr>,
               \<lparr>Name = ''insecure'', Changed = False, Value = ''false''\<rparr>,
               \<lparr>Name = ''platform'', Changed = False, Value = goarch\<rparr>,
               \<lparr>Name = ''pyxis-api-token'', Changed = False, Value = ''''\<rparr>,
               \<lparr>Name = ''pyxis-env'', Changed = False, Value = defaultPyxisEnv\<rparr>,
               \<lparr>Name = ''pyxis-host'', Changed = False, Value = ''''\<rparr>,
               \<lparr>Name = ''submit'', Changed = False, Value = ''false''\<rparr>]\<rparr>"

text \<open>
  \<^verbatim>\<open>FlagSet.Set(name, value)\<close>, when it succeeds: the flag of that name takes the
  value and is marked as changed; \<open>v\<close> is the text that the value shows afterwards.
  Parsing the command line changes flags in no other way.
\<close>

definition FlagSet_Set :: "command \<Rightarrow> string \<Rightarrow> string \<Rightarrow> command" where
  "FlagSet_Set cmd n v =
     cmd\<lparr>Flags := map (\<lambda>f. if Name f = n then f\<lparr>Changed := True, Value := v\<rparr> else f)
                      (Flags cmd)\<rparr>"

text \<open>
  A flag that the command line did not set shows its default value, and no default
  holds \<^verbatim>\<open>--submit\<close>: every flag is changed or free of the marker.
\<close>

definition unchanged_flags_lack_marker :: "command \<Rightarrow> bool" where
  "unchanged_flags_lack_marker cmd =
     list_all (\<lambda>f. Changed f \<or> \<not> Contains (Value f) ''--submit'') (Flags cmd)"

section \<open>Properties\<close>

subsection \<open>Auxiliary facts\<close>

text \<open>
  The string functions agree with the library's notions: \<open>HasPrefix\<close> is the prefix
  order, \<open>Contains\<close> is the contiguous-sublist relation, and \<open>Split\<close> gives one part
  more than the string has separators.
\<close>

lemma HasPrefix_iff_prefix: "HasPrefix s pre \<longleftrightarrow> prefix pre s"
proof
  assume "HasPrefix s pre"
  then have "take (length pre) s = pre"
    by (simp add: HasPrefix_def)
  then have "s = pre @ drop (length pre) s"
    by (metis append_take_drop_id)
  then show "prefix pre s"
    by (rule prefixI)
next
  assume "prefix pre s"
  then show "HasPrefix s pre"
    by (auto simp: HasPrefix_def prefix_def)
qed

lemma Contains_iff_sublist: "Contains s substr \<longleftrightarrow> sublist substr s"
  by (induction s) (auto simp: HasPrefix_iff_prefix sublist_Cons_right)

lemma IndexByte_None: "IndexByte s c = None \<longleftrightarrow> c \<notin> set s"
  by (induction s) auto

lemma IndexByte_Some:
  "IndexByte s c = Some m \<Longrightarrow> m < length s \<and> s ! m = c \<and> c \<notin> set (take m s)"
  by (induction s arbitrary: m) (auto split: if_splits)

lemma count_list_notin: "c \<notin> set s \<Longrightarrow> count_list s c = 0"
  by (induction s) auto

lemma Split_length: "length (Split s c) = Suc (count_list s c)"
proof (induction s c rule: Split.induct)
  case (1 s sep)
  show ?case
  proof (cases "IndexByte s sep")
    case None
    then have "sep \<notin> set s"
      by (simp add: IndexByte_None)
    with None show ?thesis
      by (subst Split.simps) (simp add: count_list_notin)
  next
    case (Some m)
    from IndexByte_Some [OF Some] have m: "m < length s" "s ! m = sep" "sep \<notin> set (take m s)"
      by auto
    have "s = take m s @ sep # drop (m + 1) s"
      using m(1,2) id_take_nth_drop [of m s] by simp
    then have "count_list s sep = count_list (take m s @ sep # drop (m + 1) s) sep"
      by simp
    also have "\<dots> = Suc (count_list (drop (m + 1) s) sep)"
      using m(3) by (simp add: count_list_notin)
    finally show ?thesis
      using 1 [OF Some] Some by (subst Split.simps) simp
  qed
qed

text \<open>The two missing-credential errors carry different messages.\<close>

lemma missing_credential_messages_differ:
  "message (MissingCredentialError ''certification project id'')
     \<noteq> message (MissingCredentialError ''pyxis api token'')"
  by simp

lemma Split_nonempty: "Split s c \<noteq> []"
  by (subst Split.simps) (simp split: option.split)

lemma Split_single: "length (Split s c) = 1 \<Longrightarrow> Split s c = [s]"
  using Split_nonempty [of "drop (the (IndexByte s c) + 1) s" c]
  by (subst (asm) Split.simps, subst Split.simps) (auto split: option.splits)

lemma scan_fold:
  "fold scanFlag fs g =
     g\<lparr>submit := submit g \<or> list_ex (\<lambda>f. Changed f \<and> Contains (Value f) ''--submit'') fs\<rparr>"
  by (induction fs arbitrary: g) (auto simp: scanFlag_def)

lemma VisitAll_scanFlag:
  "VisitAll (Flags cmd) scanFlag g = g\<lparr>submit := submission_requested cmd g\<rparr>"
  by (simp add: VisitAll_def scan_fold submission_requested_def)

subsection \<open>Option assembly\<close>

text \<open>
  Claim C3. Whenever the insecure flag of the configuration is set, the assembled
  option list ends with the insecure-connection option, which was appended to it, and
  the configuration's submit flag is false afterwards, whatever it was before.
\<close>

theorem insecure_appends_option_and_clears_submit:
  assumes "Insecure cfg"
  shows "fst (generateContainerCheckOptions cfg)
           = butlast (fst (generateContainerCheckOptions cfg)) @ [WithInsecureConnection]
       \<and> WithInsecureConnection \<in> set (fst (generateContainerCheckOptions cfg))
       \<and> \<not> Submit (snd (generateContainerCheckOptions cfg))
       \<and> snd (generateContainerCheckOptions (cfg\<lparr>Submit := True\<rparr>))
           = snd (generateContainerCheckOptions (cfg\<lparr>Submit := False\<rparr>))"
  using assms by (simp add: generateContainerCheckOptions_def Let_def)

theorem insecure_appends_option_and_clears_submit_witness:
  "Insecure \<lparr>Artifacts = ''artifacts'', LogFile = ''preflight.log'', WriteJUnit = False,
      CertificationProjectID = ''12345'', PyxisAPIToken = ''abc'',
      PyxisHost = ''catalog.redhat.com/api/containers/graphql'',
      DockerConfig = '''', Platform = ''amd64'', Submit = True, Insecure = True\<rparr>
   \<and> fst (generateContainerCheckOptions
        \<lparr>Artifacts = ''artifacts'', LogFile = ''preflight.log'', WriteJUnit = False,
         CertificationProjectID = ''12345'', PyxisAPIToken = ''abc'',
         PyxisHost = ''catalog.redhat.com/api/containers/graphql'',
         DockerConfig = '''', Platform = ''amd64'', Submit = True, Insecure = True\<rparr>)
      = [WithCertificationProject ''12345'' ''abc'', WithDockerConfigJSONFromFile '''',
         WithPyxisHost ''catalog.redhat.com/api/containers/graphql'', WithPlatform ''amd64'',
         WithCertificationProject ''12345'' ''abc'', WithInsecureConnection]
   \<and> \<not> Submit (snd (generateContainerCheckOptions
        \<lparr>Artifacts = ''artifacts'', LogFile = ''preflight.log'', WriteJUnit = False,
         CertificationProjectID = ''12345'', PyxisAPIToken = ''abc'',
         PyxisHost = ''catalog.redhat.com/api/containers/graphql'',
         DockerConfig = '''', Platform = ''amd64'', Submit = True, Insecure = True\<rparr>))"
  (is "Insecure ?cfg \<and> ?opts \<and> ?sub")
proof -
  have i: "Insecure ?cfg"
    by simp
  have o: ?opts
    by (simp add: generateContainerCheckOptions_def)
  from insecure_appends_option_and_clears_submit [OF i] have ?sub
    by blast
  with i o show ?thesis
    by blast
qed

text \<open>
  Claim C7. For every configuration the assembled list starts with the four options
  certification project (identifier paired with the token), docker credentials file,
  Pyxis host and platform, in this order and none of them ever left out. Behind them
  there is one more certification-project option exactly when the token and the
  identifier are both non-empty, and then it is the fifth option of the list.
\<close>

theorem four_options_then_optional_pairing:
  "take 4 (fst (generateContainerCheckOptions cfg))
     = [WithCertificationProject (CertificationProjectID cfg) (PyxisAPIToken cfg),
        WithDockerConfigJSONFromFile (DockerConfig cfg),
        WithPyxisHost (PyxisHost cfg),
        WithPlatform (Platform cfg)]
   \<and> filter isCertificationProject (drop 4 (fst (generateContainerCheckOptions cfg)))
     = (if PyxisAPIToken cfg \<noteq> '''' \<and> CertificationProjectID cfg \<noteq> ''''
        then [WithCertificationProject (CertificationProjectID cfg) (PyxisAPIToken cfg)]
        else [])
   \<and> (PyxisAPIToken cfg \<noteq> '''' \<and> CertificationProjectID cfg \<noteq> ''''
        \<longrightarrow> fst (generateContainerCheckOptions cfg) ! 4
              = WithCertificationProject (CertificationProjectID cfg) (PyxisAPIToken cfg))"
  by (simp add: generateContainerCheckOptions_def Let_def)

theorem four_options_then_optional_pairing_witness:
  "PyxisAPIToken \<lparr>Artifacts = ''artifacts'', LogFile = ''preflight.log'', WriteJUnit = False,
      CertificationProjectID = ''12345'', PyxisAPIToken = ''abc'',
      PyxisHost = ''catalog.redhat.com/api/containers/graphql'',
      DockerConfig = '''', Platform = ''amd64'', Submit = True, Insecure = False\<rparr> \<noteq> ''''
   \<and> CertificationProjectID \<lparr>Artifacts = ''artifacts'', LogFile = ''preflight.log'',
      WriteJUnit = False, CertificationProjectID = ''12345'', PyxisAPIToken = ''abc'',
      PyxisHost = ''catalog.redhat.com/api/containers/graphql'',
      DockerConfig = '''', Platform = ''amd64'', Submit = True, Insecure = False\<rparr> \<noteq> ''''
   \<and> fst (generateContainerCheckOptions
        \<lparr>Artifacts = ''artifacts'', LogFile = ''preflight.log'', WriteJUnit = False,
         CertificationProjectID = ''12345'', PyxisAPIToken = ''abc'',
         PyxisHost = ''catalog.redhat.com/api/containers/graphql'',
         DockerConfig = '''', Platform = ''amd64'', Submit = True, Insecure = False\<rparr>) ! 4
      = WithCertificationProject ''12345'' ''abc''"
  (is "PyxisAPIToken ?cfg \<noteq> _ \<and> _ \<and> _")
proof -
  have t: "PyxisAPIToken ?cfg \<noteq> ''''" and p: "CertificationProjectID ?cfg \<noteq> ''''"
    by simp_all
  from four_options_then_optional_pairing [of ?cfg] t p
  have "fst (generateContainerCheckOptions ?cfg) ! 4
          = WithCertificationProject (CertificationProjectID ?cfg) (PyxisAPIToken ?cfg)"
    by blast
  with t p show ?thesis
    by simp
qed

text \<open>
  Claim C10. Option assembly leaves every field of the configuration as it was, the
  submit flag excepted: afterwards the submit flag is true exactly when it was true
  before and the insecure flag is not set. So the configuration is untouched when the
  insecure flag is not set, the submit flag is cleared when it is set, and the submit
  flag never goes from false to true.
\<close>

theorem only_submit_is_written:
  "snd (generateContainerCheckOptions cfg) = cfg\<lparr>Submit := Submit cfg \<and> \<not> Insecure cfg\<rparr>
   \<and> (Insecure cfg \<longrightarrow> snd (generateContainerCheckOptions cfg) = cfg\<lparr>Submit := False\<rparr>)
   \<and> (\<not> Insecure cfg \<longrightarrow> snd (generateContainerCheckOptions cfg) = cfg)
   \<and> (Submit (snd (generateContainerCheckOptions cfg)) \<longrightarrow> Submit cfg)"
  by (simp add: generateContainerCheckOptions_def Let_def)

theorem only_submit_is_written_witness:
  "Insecure \<lparr>Artifacts = ''artifacts'', LogFile = ''preflight.log'', WriteJUnit = False,
      CertificationProjectID = ''12345'', PyxisAPIToken = ''abc'',
      PyxisHost = ''catalog.redhat.com/api/containers/graphql'',
      DockerConfig = '''', Platform = ''amd64'', Submit = True, Insecure = True\<rparr>
   \<and> snd (generateContainerCheckOptions
        \<lparr>Artifacts = ''artifacts'', LogFile = ''preflight.log'', WriteJUnit = False,
         CertificationProjectID = ''12345'', PyxisAPIToken = ''abc'',
         PyxisHost = ''catalog.redhat.com/api/containers/graphql'',
         DockerConfig = '''', Platform = ''amd64'', Submit = True, Insecure = True\<rparr>)
      = \<lparr>Artifacts = ''artifacts'', LogFile = ''preflight.log'', WriteJUnit = False,
         CertificationProjectID = ''12345'', PyxisAPIToken = ''abc'',
         PyxisHost = ''catalog.redhat.com/api/containers/graphql'',
         DockerConfig = '''', Platform = ''amd64'', Submit = False, Insecure = True\<rparr>
   \<and> \<not> Insecure \<lparr>Artifacts = ''artifacts'', LogFile = ''preflight.log'', WriteJUnit = False,
      CertificationProjectID = ''12345'', PyxisAPIToken = ''abc'',
      PyxisHost = ''catalog.redhat.com/api/containers/graphql'',
      DockerConfig = '''', Platform = ''amd64'', Submit = True, Insecure = False\<rparr>
   \<and> Submit (snd (generateContainerCheckOptions
        \<lparr>Artifacts = ''artifacts'', LogFile = ''preflight.log'', WriteJUnit = False,
         CertificationProjectID = ''12345'', PyxisAPIToken = ''abc'',
         PyxisHost = ''catalog.redhat.com/api/containers/graphql'',
         DockerConfig = '''', Platform = ''amd64'', Submit = True, Insecure = False\<rparr>))"
  (is "Insecure ?c1 \<and> snd (generateContainerCheckOptions ?c1) = ?c1' \<and> \<not> Insecure ?c2 \<and> _")
proof -
  have i1: "Insecure ?c1" and i2: "\<not> Insecure ?c2"
    by simp_all
  from only_submit_is_written [of ?c1] i1
  have "snd (generateContainerCheckOptions ?c1) = ?c1\<lparr>Submit := False\<rparr>"
    by blast
  then have a: "snd (generateContainerCheckOptions ?c1) = ?c1'"
    by simp
  from only_submit_is_written [of ?c2] i2
  have "snd (generateContainerCheckOptions ?c2) = ?c2"
    by blast
  then have b: "Submit (snd (generateContainerCheckOptions ?c2))"
    by simp
  from i1 a i2 b show ?thesis
    by blast
qed

subsection \<open>The positional-argument check\<close>

text \<open>
  Claim C9. With any number of positional arguments other than one (none, two, or
  more) the check fails with the argument error, and it does so before the flags are
  scanned or any submission prerequisite is looked at: the state is returned as it
  was. So the check succeeds only with exactly one argument; and with exactly one
  argument and no submission requested it does succeed.
\<close>

theorem exactly_one_positional_argument:
  "(length args \<noteq> 1 \<longrightarrow> checkContainerPositionalArgs cmd args g = (Failed ArgumentError, g))
   \<and> (fst (checkContainerPositionalArgs cmd args g) = Ok \<longrightarrow> length args = 1)
   \<and> (length args = 1 \<and> \<not> submission_requested cmd g
        \<longrightarrow> checkContainerPositionalArgs cmd args g = (Ok, g))"
  by (simp add: checkContainerPositionalArgs_def VisitAll_scanFlag Let_def
      submission_requested_def)

theorem exactly_one_positional_argument_witness:
  "length ([] :: string list) \<noteq> 1
   \<and> checkContainerPositionalArgs
        \<lparr>Flags = [\<lparr>Name = ''certification-project-id'', Changed = False, Value = ''''\<rparr>,
                  \<lparr>Name = ''pyxis-api-token'', Changed = False, Value = ''''\<rparr>,
                  \<lparr>Name = ''submit'', Changed = True, Value = ''true''\<rparr>]\<rparr>
        [] \<lparr>submit = True, viper = [(''submit'', ''true'')]\<rparr>
      = (Failed ArgumentError, \<lparr>submit = True, viper = [(''submit'', ''true'')]\<rparr>)
   \<and> length [''quay.io/r/n:v'', ''quay.io/r/m:v''] \<noteq> 1
   \<and> checkContainerPositionalArgs
        \<lparr>Flags = [\<lparr>Name = ''certification-project-id'', Changed = False, Value = ''''\<rparr>,
                  \<lparr>Name = ''pyxis-api-token'', Changed = False, Value = ''''\<rparr>,
                  \<lparr>Name = ''submit'', Changed = True, Value = ''true''\<rparr>]\<rparr>
        [''quay.io/r/n:v'', ''quay.io/r/m:v''] \<lparr>submit = True, viper = [(''submit'', ''true'')]\<rparr>
      = (Failed ArgumentError, \<lparr>submit = True, viper = [(''submit'', ''true'')]\<rparr>)
   \<and> length [''quay.io/r/n:v''] = 1
   \<and> \<not> submission_requested
        \<lparr>Flags = [\<lparr>Name = ''certification-project-id'', Changed = False, Value = ''''\<rparr>,
                  \<lparr>Name = ''pyxis-api-token'', Changed = False, Value = ''''\<rparr>,
                  \<lparr>Name = ''submit'', Changed = False, Value = ''false''\<rparr>]\<rparr>
        \<lparr>submit = False, viper = []\<rparr>
   \<and> checkContainerPositionalArgs
        \<lparr>Flags = [\<lparr>Name = ''certification-project-id'', Changed = False, Value = ''''\<rparr>,
                  \<lparr>Name = ''pyxis-api-token'', Changed = False, Value = ''''\<rparr>,
                  \<lparr>Name = ''submit'', Changed = False, Value = ''false''\<rparr>]\<rparr>
        [''quay.io/r/n:v''] \<lparr>submit = False, viper = []\<rparr>
      = (Ok, \<lparr>submit = False, viper = []\<rparr>)"
  (is "?L0 \<and> checkContainerPositionalArgs ?cmd ?a0 ?g = _
       \<and> ?L2 \<and> checkContainerPositionalArgs _ ?a2 _ = _
       \<and> ?L1 \<and> \<not> submission_requested ?cmd1 ?g1 \<and> checkContainerPositionalArgs _ ?a1 _ = _")
proof -
  have l0: ?L0 and l2: ?L2 and l1: ?L1
    by simp_all
  have n: "\<not> submission_requested ?cmd1 ?g1"
    by (simp add: submission_requested_def)
  from exactly_one_positional_argument [of ?a0 ?cmd ?g] l0
  have r0: "checkContainerPositionalArgs ?cmd ?a0 ?g = (Failed ArgumentError, ?g)"
    by blast
  from exactly_one_positional_argument [of ?a2 ?cmd ?g] l2
  have r2: "checkContainerPositionalArgs ?cmd ?a2 ?g = (Failed ArgumentError, ?g)"
    by blast
  from exactly_one_positional_argument [of ?a1 ?cmd1 ?g1] l1 n
  have r1: "checkContainerPositionalArgs ?cmd1 ?a1 ?g1 = (Ok, ?g1)"
    by blast
  from l0 r0 l2 r2 l1 n r1 show ?thesis
    by blast
qed

subsection \<open>The submission prerequisites\<close>

text \<open>
  Claim C2. With one positional argument and submission requested, the outcome of the
  check is that of the first failing check among the five prerequisite checks taken in
  the order project identifier missing, token missing, project identifier empty, token
  empty, flag prefix; no failing check gives success. In particular, when the project
  identifier comes from no source and the token is set, the outcome is the
  missing-credential error of the project identifier, not that of the token.
\<close>

theorem prerequisites_checked_in_order:
  assumes "length args = 1"
    and "submission_requested cmd g"
    and "Flag cmd ''certification-project-id'' = Some pid"
    and "Flag cmd ''pyxis-api-token'' = Some tok"
  shows "fst (checkContainerPositionalArgs cmd args g)
           = first_failure (prerequisite_checks pid tok (viper g))
       \<and> (\<not> Changed pid \<and> \<not> IsSet (viper g) ''certification_project_id''
            \<and> (Changed tok \<or> IsSet (viper g) ''pyxis_api_token'')
          \<longrightarrow> fst (checkContainerPositionalArgs cmd args g)
                 = Failed (MissingCredentialError ''certification project id'')
              \<and> fst (checkContainerPositionalArgs cmd args g)
                 \<noteq> Failed (MissingCredentialError ''pyxis api token''))"
  using assms
  by (simp add: checkContainerPositionalArgs_def VisitAll_scanFlag prerequisite_checks_def
      Let_def)

theorem prerequisites_checked_in_order_witness:
  "length [''quay.io/r/n:v''] = 1
   \<and> submission_requested
        \<lparr>Flags = [\<lparr>Name = ''certification-project-id'', Changed = False, Value = ''''\<rparr>,
                  \<lparr>Name = ''pyxis-api-token'', Changed = True, Value = ''abc''\<rparr>,
                  \<lparr>Name = ''submit'', Changed = True, Value = ''true''\<rparr>]\<rparr>
        \<lparr>submit = True, viper = [(''pyxis_api_token'', ''abc''), (''submit'', ''true'')]\<rparr>
   \<and> fst (checkContainerPositionalArgs
        \<lparr>Flags = [\<lparr>Name = ''certification-project-id'', Changed = False, Value = ''''\<rparr>,
                  \<lparr>Name = ''pyxis-api-token'', Changed = True, Value = ''abc''\<rparr>,
                  \<lparr>Name = ''submit'', Changed = True, Value = ''true''\<rparr>]\<rparr>
        [''quay.io/r/n:v'']
        \<lparr>submit = True, viper = [(''pyxis_api_token'', ''abc''), (''submit'', ''true'')]\<rparr>)
      = Failed (MissingCredentialError ''certification project id'')"
  (is "?A \<and> ?R \<and> fst (checkContainerPositionalArgs ?cmd ?args ?g) = _")
proof -
  have a: ?A
    by simp
  have r: ?R
    by (simp add: submission_requested_def)
  have p: "Flag ?cmd ''certification-project-id''
             = Some \<lparr>Name = ''certification-project-id'', Changed = False, Value = ''''\<rparr>"
    by (simp add: Flag_def)
  have t: "Flag ?cmd ''pyxis-api-token''
             = Some \<lparr>Name = ''pyxis-api-token'', Changed = True, Value = ''abc''\<rparr>"
    by (simp add: Flag_def)
  from prerequisites_checked_in_order [OF a r p t] have
    "fst (checkContainerPositionalArgs ?cmd ?args ?g)
       = Failed (MissingCredentialError ''certification project id'')"
    by (simp add: IsSet_def prerequisite_checks_def)
  with a r show ?thesis
    by blast
qed

text \<open>
  Claim C8. With one positional argument and submission requested, when none of the
  first four prerequisite checks fails and the token or the project identifier, as the
  store resolves it, begins with \<^verbatim>\<open>--\<close>, the check fails with the
  malformed-credential error. A token \<^verbatim>\<open>--token\<close> is such a value.
\<close>

theorem flag_prefix_is_rejected:
  assumes "length args = 1"
    and "submission_requested cmd g"
    and "Flag cmd ''certification-project-id'' = Some pid"
    and "Flag cmd ''pyxis-api-token'' = Some tok"
    and "\<not> (\<not> Changed pid \<and> \<not> IsSet (viper g) ''certification_project_id'')"
    and "\<not> (\<not> Changed tok \<and> \<not> IsSet (viper g) ''pyxis_api_token'')"
    and "\<not> (Changed pid \<and> GetString (viper g) ''certification_project_id'' = '''')"
    and "\<not> (Changed tok \<and> GetString (viper g) ''pyxis_api_token'' = '''')"
    and "HasPrefix (GetString (viper g) ''pyxis_api_token'') ''--''
         \<or> HasPrefix (GetString (viper g) ''certification_project_id'') ''--''"
  shows "fst (checkContainerPositionalArgs cmd args g) = Failed MalformedCredentialError"
  using assms
  by (simp add: checkContainerPositionalArgs_def VisitAll_scanFlag Let_def)

theorem flag_prefix_is_rejected_witness:
  "length [''quay.io/r/n:v''] = 1
   \<and> submission_requested
        \<lparr>Flags = [\<lparr>Name = ''certification-project-id'', Changed = True, Value = ''12345''\<rparr>,
                  \<lparr>Name = ''pyxis-api-token'', Changed = True, Value = ''--token''\<rparr>,
                  \<lparr>Name = ''submit'', Changed = True, Value = ''true''\<rparr>]\<rparr>
        \<lparr>submit = True,
         viper = [(''certification_project_id'', ''12345''), (''pyxis_api_token'', ''--token''),
                  (''submit'', ''true'')]\<rparr>
   \<and> HasPrefix (GetString [(''certification_project_id'', ''12345''),
        (''pyxis_api_token'', ''--token''), (''submit'', ''true'')] ''pyxis_api_token'') ''--''
   \<and> fst (checkContainerPositionalArgs
        \<lparr>Flags = [\<lparr>Name = ''certification-project-id'', Changed = True, Value = ''12345''\<rparr>,
                  \<lparr>Name = ''pyxis-api-token'', Changed = True, Value = ''--token''\<rparr>,
                  \<lparr>Name = ''submit'', Changed = True, Value = ''true''\<rparr>]\<rparr>
        [''quay.io/r/n:v'']
        \<lparr>submit = True,
         viper = [(''certification_project_id'', ''12345''), (''pyxis_api_token'', ''--token''),
                  (''submit'', ''true'')]\<rparr>)
      = Failed MalformedCredentialError"
  (is "?A \<and> ?R \<and> ?H \<and> fst (checkContainerPositionalArgs ?cmd ?args ?g) = _")
proof -
  have a: ?A
    by simp
  have r: ?R
    by (simp add: submission_requested_def)
  have h: ?H
    by (simp add: GetString_def HasPrefix_def)
  have p: "Flag ?cmd ''certification-project-id''
             = Some \<lparr>Name = ''certification-project-id'', Changed = True, Value = ''12345''\<rparr>"
    by (simp add: Flag_def)
  have t: "Flag ?cmd ''pyxis-api-token''
             = Some \<lparr>Name = ''pyxis-api-token'', Changed = True, Value = ''--token''\<rparr>"
    by (simp add: Flag_def)
  have c1: "\<not> (\<not> Changed \<lparr>Name = ''certification-project-id'', Changed = True, Value = ''12345''\<rparr>
              \<and> \<not> IsSet (viper ?g) ''certification_project_id'')"
    by simp
  have c2: "\<not> (\<not> Changed \<lparr>Name = ''pyxis-api-token'', Changed = True, Value = ''--token''\<rparr>
              \<and> \<not> IsSet (viper ?g) ''pyxis_api_token'')"
    by simp
  have c3: "\<not> (Changed \<lparr>Name = ''certification-project-id'', Changed = True, Value = ''12345''\<rparr>
              \<and> GetString (viper ?g) ''certification_project_id'' = '''')"
    by (simp add: GetString_def)
  have c4: "\<not> (Changed \<lparr>Name = ''pyxis-api-token'', Changed = True, Value = ''--token''\<rparr>
              \<and> GetString (viper ?g) ''pyxis_api_token'' = '''')"
    by (simp add: GetString_def)
  have c5: "HasPrefix (GetString (viper ?g) ''pyxis_api_token'') ''--''
            \<or> HasPrefix (GetString (viper ?g) ''certification_project_id'') ''--''"
    using h by simp
  from flag_prefix_is_rejected [OF a r p t c1 c2 c3 c4 c5] a r h show ?thesis
    by blast
qed

text \<open>
  The command as \<^verbatim>\<open>checkContainerCmd\<close> builds it has no unchanged flag with the
  marker in its value, provided the two default constants are free of it, and setting
  flags from the command line keeps it so.
\<close>

lemma registered_flags_lack_marker:
  assumes "\<not> Contains defaultPyxisEnv ''--submit''"
    and "\<not> Contains goarch ''--submit''"
  shows "unchanged_flags_lack_marker (checkContainerCmd defaultPyxisEnv goarch)"
  using assms
  by (simp add: unchanged_flags_lack_marker_def checkContainerCmd_def HasPrefix_def)

lemma FlagSet_Set_keeps_lack_marker:
  assumes "unchanged_flags_lack_marker cmd"
  shows "unchanged_flags_lack_marker (FlagSet_Set cmd n v)"
  using assms
  by (auto simp: unchanged_flags_lack_marker_def FlagSet_Set_def list_all_iff)



subsection \<open>Normalization of the certification project identifier\<close>

text \<open>
  What the hook does on each shape of the identifier: one part other than
  \<^verbatim>\<open>ospid\<close>, or two parts the first of which is not \<^verbatim>\<open>ospid\<close>, pass through;
  two parts behind \<^verbatim>\<open>ospid\<close> are rewritten to the second part; the single part
  \<^verbatim>\<open>ospid\<close> makes the read of \<^verbatim>\<open>parts[1]\<close> panic.
\<close>

lemma validate_passes_through:
  assumes "length (Split (GetString (viper g) ''certification_project_id'') CHR ''-'') = 1
             \<and> GetString (viper g) ''certification_project_id'' \<noteq> ''ospid''
           \<or> length (Split (GetString (viper g) ''certification_project_id'') CHR ''-'') = 2
             \<and> Split (GetString (viper g) ''certification_project_id'') CHR ''-'' ! 0 \<noteq> ''ospid''"
  shows "validateCertificationProjectID g = (Ok, g)"
  using assms
proof (elim disjE conjE)
  assume one: "length (Split (GetString (viper g) ''certification_project_id'') CHR ''-'') = 1"
    and ne: "GetString (viper g) ''certification_project_id'' \<noteq> ''ospid''"
  from Split_single [OF one] ne show ?thesis
    by (simp add: validateCertificationProjectID_def Let_def index_def)
next
  assume "length (Split (GetString (viper g) ''certification_project_id'') CHR ''-'') = 2"
    and "Split (GetString (viper g) ''certification_project_id'') CHR ''-'' ! 0 \<noteq> ''ospid''"
  then show ?thesis
    by (simp add: validateCertificationProjectID_def Let_def index_def)
qed

lemma validate_legacy:
  assumes "length (Split (GetString (viper g) ''certification_project_id'') CHR ''-'') = 2"
    and "Split (GetString (viper g) ''certification_project_id'') CHR ''-'' ! 0 = ''ospid''"
  shows "validateCertificationProjectID g
           = (Ok, g\<lparr>viper := Set (viper g) ''certification_project_id''
                   (Split (GetString (viper g) ''certification_project_id'') CHR ''-'' ! 1)\<rparr>)"
  using assms
  by (simp add: validateCertificationProjectID_def Let_def index_def)

lemma validate_single_ospid:
  assumes "GetString (viper g) ''certification_project_id'' = ''ospid''"
  shows "validateCertificationProjectID g = (Panicked, g)"
  using assms
  by (simp add: validateCertificationProjectID_def Let_def index_def Split.simps)

lemma normalization_examples:
  "GetString (viper (snd (validateCertificationProjectID
      \<lparr>submit = False, viper = [(''certification_project_id'', ''ospid-12345'')]\<rparr>)))
      ''certification_project_id'' = ''12345''"
  "validateCertificationProjectID
      \<lparr>submit = False, viper = [(''certification_project_id'', ''12345'')]\<rparr>
     = (Ok, \<lparr>submit = False, viper = [(''certification_project_id'', ''12345'')]\<rparr>)"
  "validateCertificationProjectID
      \<lparr>submit = False, viper = [(''certification_project_id'', ''foo-12345'')]\<rparr>
     = (Ok, \<lparr>submit = False, viper = [(''certification_project_id'', ''foo-12345'')]\<rparr>)"
  by (simp_all add: validateCertificationProjectID_def GetString_def Set_def index_def
      Split.simps)

text \<open>
  Claim C6. Whenever the configured identifier splits on \<^verbatim>\<open>-\<close> into more than two
  parts, the hook returns the malformed-identifier error for it and leaves the state
  as it was, whatever the value \<open>b\<close> of the submit variable is. An error returned by the
  pre-run hook is what keeps the command from running.
\<close>

theorem more_than_two_parts_rejected:
  assumes "length (Split (GetString (viper g) ''certification_project_id'') CHR ''-'') > 2"
  shows "validateCertificationProjectID (g\<lparr>submit := b\<rparr>)
           = (Failed (MalformedIdentifierError (GetString (viper g) ''certification_project_id'')),
              g\<lparr>submit := b\<rparr>)"
  using assms by (simp add: validateCertificationProjectID_def Let_def)

theorem more_than_two_parts_rejected_witness:
  "length (Split (GetString (viper
       \<lparr>submit = False, viper = [(''certification_project_id'', ''a-b-c'')]\<rparr>)
       ''certification_project_id'') CHR ''-'') > 2
   \<and> validateCertificationProjectID
        \<lparr>submit = True, viper = [(''certification_project_id'', ''a-b-c'')]\<rparr>
      = (Failed (MalformedIdentifierError ''a-b-c''),
         \<lparr>submit = True, viper = [(''certification_project_id'', ''a-b-c'')]\<rparr>)
   \<and> validateCertificationProjectID
        \<lparr>submit = False, viper = [(''certification_project_id'', ''a-b-c'')]\<rparr>
      = (Failed (MalformedIdentifierError ''a-b-c''),
         \<lparr>submit = False, viper = [(''certification_project_id'', ''a-b-c'')]\<rparr>)"
  (is "?L \<and> _ \<and> _")
proof -
  have l: ?L
    by (simp add: GetString_def Split.simps)
  from more_than_two_parts_rejected [OF l, of True] more_than_two_parts_rejected [OF l, of False] l
  show ?thesis
    by (simp add: GetString_def)
qed

text \<open>
  Claim C1 does not hold of the code at the identifier \<^verbatim>\<open>ospid\<close>. It splits into
  one part, so the length test passes; the part equals \<^verbatim>\<open>ospid\<close>, and the hook
  reads \<^verbatim>\<open>parts[1]\<close> of a slice of length one, which panics. (Every other
  identifier of the claim passes through, by \<open>validate_passes_through\<close>.)
\<close>

theorem single_token_ospid_panics:
  "Split ''ospid'' CHR ''-'' = [''ospid'']
   \<and> validateCertificationProjectID
        \<lparr>submit = False, viper = [(''certification_project_id'', ''ospid'')]\<rparr>
      = (Panicked, \<lparr>submit = False, viper = [(''certification_project_id'', ''ospid'')]\<rparr>)"
  by (simp add: validateCertificationProjectID_def GetString_def index_def Split.simps)

text \<open>
  Claim C5 does not hold of the code at the identifier \<^verbatim>\<open>ospid-ospid\<close>. The hook
  succeeds on it and rewrites the identifier to \<^verbatim>\<open>ospid\<close>; run again on that
  state, it panics instead of returning \<^verbatim>\<open>ospid\<close> again. (The three examples
  of the claim hold, by \<open>normalization_examples\<close>.)
\<close>

theorem normalized_ospid_panics_when_normalized_again:
  "validateCertificationProjectID
        \<lparr>submit = False, viper = [(''certification_project_id'', ''ospid-ospid'')]\<rparr>
      = (Ok, \<lparr>submit = False,
              viper = [(''certification_project_id'', ''ospid''),
                       (''certification_project_id'', ''ospid-ospid'')]\<rparr>)
   \<and> GetString [(''certification_project_id'', ''ospid''),
                 (''certification_project_id'', ''ospid-ospid'')] ''certification_project_id''
      = ''ospid''
   \<and> fst (validateCertificationProjectID
        \<lparr>submit = False,
         viper = [(''certification_project_id'', ''ospid''),
                  (''certification_project_id'', ''ospid-ospid'')]\<rparr>)
      = Panicked"
  by (simp add: validateCertificationProjectID_def GetString_def Set_def index_def Split.simps
      Let_def)

end
